theory Spec2Isabelle
  imports Complex_Main "HOL-Library.AList"
begin

section \<open>Floating-point values\<close>

text \<open>
  The pressure, depth and temperature columns hold IEEE doubles. A double is modelled as a
  real number or one of the three special values; rounding and overflow of finite results
  are not modelled, and zero is the positive zero. \<open>NaN\<close> is also pandas' missing value of
  a numeric column.
\<close>

datatype fval = NaN | Fin real | PInf | NInf

definition inf_of_sign :: "real \<Rightarrow> fval" where
  "inf_of_sign s = (if 0 < s then PInf else if s < 0 then NInf else NaN)"

fun fneg :: "fval \<Rightarrow> fval" where
  "fneg NaN = NaN"
| "fneg (Fin a) = Fin (- a)"
| "fneg PInf = NInf"
| "fneg NInf = PInf"

fun fadd :: "fval \<Rightarrow> fval \<Rightarrow> fval" where
  "fadd NaN _ = NaN"
| "fadd _ NaN = NaN"
| "fadd (Fin a) (Fin b) = Fin (a + b)"
| "fadd PInf NInf = NaN"
| "fadd NInf PInf = NaN"
| "fadd PInf _ = PInf"
| "fadd _ PInf = PInf"
| "fadd NInf _ = NInf"
| "fadd _ NInf = NInf"

definition fsub :: "fval \<Rightarrow> fval \<Rightarrow> fval" where
  "fsub a b = fadd a (fneg b)"

fun fmul :: "fval \<Rightarrow> fval \<Rightarrow> fval" where
  "fmul NaN _ = NaN"
| "fmul _ NaN = NaN"
| "fmul (Fin a) (Fin b) = Fin (a * b)"
| "fmul (Fin a) PInf = inf_of_sign a"
| "fmul (Fin a) NInf = inf_of_sign (- a)"
| "fmul PInf (Fin b) = inf_of_sign b"
| "fmul NInf (Fin b) = inf_of_sign (- b)"
| "fmul PInf PInf = PInf"
| "fmul PInf NInf = NInf"
| "fmul NInf PInf = NInf"
| "fmul NInf NInf = PInf"

text \<open>Division by zero raises nothing on a numpy array: it yields an infinity, or NaN for 0/0.\<close>

fun fdiv :: "fval \<Rightarrow> fval \<Rightarrow> fval" where
  "fdiv NaN _ = NaN"
| "fdiv _ NaN = NaN"
| "fdiv (Fin a) (Fin b) = (if b = 0 then inf_of_sign a else Fin (a / b))"
| "fdiv (Fin a) PInf = Fin 0"
| "fdiv (Fin a) NInf = Fin 0"
| "fdiv PInf (Fin b) = (if 0 \<le> b then PInf else NInf)"
| "fdiv NInf (Fin b) = (if 0 \<le> b then NInf else PInf)"
| "fdiv PInf PInf = NaN"
| "fdiv PInf NInf = NaN"
| "fdiv NInf PInf = NaN"
| "fdiv NInf NInf = NaN"

fun fabs :: "fval \<Rightarrow> fval" where
  "fabs NaN = NaN"
| "fabs (Fin a) = Fin \<bar>a\<bar>"
| "fabs PInf = PInf"
| "fabs NInf = PInf"

text \<open>\<open>fgt a b\<close> is the comparison \<open>a > b\<close>; every comparison with NaN is false.\<close>

fun fgt :: "fval \<Rightarrow> fval \<Rightarrow> bool" where
  "fgt NaN _ = False"
| "fgt _ NaN = False"
| "fgt (Fin a) (Fin b) = (b < a)"
| "fgt PInf PInf = False"
| "fgt PInf _ = True"
| "fgt NInf _ = False"
| "fgt (Fin a) PInf = False"
| "fgt (Fin a) NInf = True"


section \<open>Errors\<close>

text \<open>
  The exceptions the code and pandas raise, by their Python class. The last constructor is
  no exception: it marks a table that would carry the same column label twice, which the
  table model below (one value per label in a row) does not represent; a run that reaches
  one stops there, and no statement below speaks about such a run.
\<close>

datatype error = KeyError | ValueError | TypeError | MergeError | DuplicateLabels

section \<open>calculations.py: units and depth\<close>

definition GRAVITY :: real where
  "GRAVITY = 9.80665"

definition PSI_TO_PASCAL :: real where
  "PSI_TO_PASCAL = 6894.757293168"

definition KPA_TO_PASCAL :: real where
  "KPA_TO_PASCAL = 1000.0"

record ProcessingConfig =
  reference_datum :: real
  fluid_density :: real
  pressure_units :: string
  timezone :: "string option"
  merge_tolerance :: string


text \<open>\<open>str.lower\<close>, on the ASCII letters.\<close>

definition lower_char :: "char \<Rightarrow> char" where
  "lower_char c =
     (let n = (of_char c :: nat) in if 65 \<le> n \<and> n \<le> 90 then char_of (n + 32) else c)"

definition lower :: "string \<Rightarrow> string" where
  "lower s = map lower_char s"

text \<open>A numeric Series is the list of its values.\<close>

definition to_pascal :: "fval list \<Rightarrow> string \<Rightarrow> error + fval list" where
  "to_pascal series units =
     (let units = lower units in
      if units = ''kpa'' then Inr (map (\<lambda>v. fmul v (Fin KPA_TO_PASCAL)) series)
      else if units = ''psi'' then Inr (map (\<lambda>v. fmul v (Fin PSI_TO_PASCAL)) series)
      else Inl ValueError)"

definition gauge_to_depth :: "fval list \<Rightarrow> real \<Rightarrow> string \<Rightarrow> error + fval list" where
  "gauge_to_depth gauge_pressure density units =
     (case to_pascal gauge_pressure units of
        Inl e \<Rightarrow> Inl e
      | Inr pascal \<Rightarrow> Inr (map (\<lambda>p. fdiv p (Fin (density * GRAVITY))) pascal))"

section \<open>Tables\<close>

text \<open>
  A cell of a DataFrame: a double, a timestamp in nanoseconds (\<open>T None\<close> is \<open>NaT\<close>), or a
  string. A column has a dtype; a row gives one cell per column label. The index of a
  DataFrame is not part of the model: no function below reads it, and the two assignments
  of a computed column to a filtered table (in qaqc.py) assign a Series that carries the
  very index of that table, so they are positional.
\<close>

datatype cell = F fval | T "int option" | S string

datatype dtype = Float64 | Datetime64 | Object

type_synonym row = "(string \<times> cell) list"

record frame =
  columns :: "(string \<times> dtype) list"
  rows :: "row list"

definition labels :: "frame \<Rightarrow> string list" where
  "labels df = map fst (columns df)"

text \<open>A well-formed table: no label twice, and every row has the cells of the columns, in their order.\<close>

definition wf_frame :: "frame \<Rightarrow> bool" where
  "wf_frame df = (distinct (labels df) \<and> list_all (\<lambda>r. map fst r = labels df) (rows df))"

text \<open>\<open>name in df\<close>\<close>

definition contains :: "frame \<Rightarrow> string \<Rightarrow> bool" where
  "contains df name = (name \<in> set (labels df))"

definition cell_of :: "row \<Rightarrow> string \<Rightarrow> cell" where
  "cell_of r name = (case map_of r name of Some v \<Rightarrow> v | None \<Rightarrow> F NaN)"

text \<open>\<open>df[name]\<close>\<close>

definition getitem :: "frame \<Rightarrow> string \<Rightarrow> error + cell list" where
  "getitem df name =
     (if contains df name then Inr (map (\<lambda>r. cell_of r name) (rows df)) else Inl KeyError)"

text \<open>\<open>df[name] = values\<close>: replaces the column, or appends it as the last one.\<close>

definition setitem :: "frame \<Rightarrow> string \<Rightarrow> dtype \<Rightarrow> cell list \<Rightarrow> error + frame" where
  "setitem df name dt vals =
     (if length vals \<noteq> length (rows df) then Inl ValueError
      else Inr \<lparr> columns = AList.update name dt (columns df),
                 rows = map2 (\<lambda>r v. AList.update name v r) (rows df) vals \<rparr>)"

text \<open>
  The values of a column as doubles, for arithmetic and comparison with a double. A string
  cell makes the first such operation raise TypeError. So does a timestamp cell here;
  pandas raises it at the first operation that mixes the column with a double.
\<close>

fun float_of :: "cell \<Rightarrow> fval option" where
  "float_of (F v) = Some v"
| "float_of _ = None"

fun as_float :: "cell list \<Rightarrow> error + fval list" where
  "as_float [] = Inr []"
| "as_float (c # cs) =
     (case float_of c of
        None \<Rightarrow> Inl TypeError
      | Some v \<Rightarrow> (case as_float cs of Inl e \<Rightarrow> Inl e | Inr vs \<Rightarrow> Inr (v # vs)))"

text \<open>Selection by a boolean mask: \<open>series[mask]\<close> and \<open>df.loc[mask]\<close>.\<close>

definition mask_select :: "bool list \<Rightarrow> 'a list \<Rightarrow> 'a list" where
  "mask_select flags xs = map snd (filter fst (zip flags xs))"

definition loc_mask :: "frame \<Rightarrow> bool list \<Rightarrow> frame" where
  "loc_mask df flags = df \<lparr> rows := mask_select flags (rows df) \<rparr>"

text \<open>\<open>pd.DataFrame(columns=df.columns)\<close>: the labels, no rows, every column of dtype object.\<close>

definition empty_like :: "frame \<Rightarrow> frame" where
  "empty_like df = \<lparr> columns = map (\<lambda>(name, dt). (name, Object)) (columns df), rows = [] \<rparr>"

text \<open>\<open>Series.diff()\<close>: the difference to the previous value; the first has none.\<close>

fun diff :: "fval list \<Rightarrow> fval list" where
  "diff [] = []"
| "diff (x # xs) = NaN # map2 fsub xs (x # xs)"

section \<open>Column names\<close>

abbreviation TIMESTAMP :: string where "TIMESTAMP \<equiv> ''timestamp''"
abbreviation WATER_PRESSURE :: string where "WATER_PRESSURE \<equiv> ''water_pressure''"
abbreviation BARO_PRESSURE :: string where "BARO_PRESSURE \<equiv> ''barometric_pressure''"
abbreviation GAUGE_PRESSURE :: string where "GAUGE_PRESSURE \<equiv> ''gauge_pressure''"
abbreviation WATER_TEMPERATURE :: string where "WATER_TEMPERATURE \<equiv> ''water_temperature''"
abbreviation AIR_TEMPERATURE :: string where "AIR_TEMPERATURE \<equiv> ''air_temperature''"
abbreviation WATER_DEPTH :: string where "WATER_DEPTH \<equiv> ''water_depth_m''"
abbreviation WSE :: string where "WSE \<equiv> ''water_surface_elevation''"

section \<open>qaqc.py\<close>

record QAQCConfig =
  shift_threshold :: real
  temperature_threshold :: "real option"

definition flag_shifts :: "frame \<Rightarrow> QAQCConfig \<Rightarrow> error + frame" where
  "flag_shifts df config =
     (if \<not> contains df WATER_DEPTH then Inl KeyError
      else case getitem df WATER_DEPTH of
        Inl e \<Rightarrow> Inl e
      | Inr cells \<Rightarrow>
         (case as_float cells of
            Inl e \<Rightarrow> Inl e
          | Inr depth \<Rightarrow>
             (let delta = map fabs (diff depth);
                  flags = map (\<lambda>d. fgt d (Fin (shift_threshold config))) delta;
                  flagged = loc_mask df flags
              in setitem flagged ''depth_change'' Float64 (map F (mask_select flags delta)))))"

text \<open>
  \<open>not config.temperature_threshold\<close> is Python's truth test of an optional double: true
  for \<open>None\<close> and for zero.
\<close>

definition falsy :: "real option \<Rightarrow> bool" where
  "falsy x = (case x of None \<Rightarrow> True | Some v \<Rightarrow> v = 0)"

definition flag_temperature_outliers :: "frame \<Rightarrow> QAQCConfig \<Rightarrow> error + frame" where
  "flag_temperature_outliers df config =
     (if falsy (temperature_threshold config) \<or> \<not> contains df WATER_TEMPERATURE
      then Inr (empty_like df)
      else case temperature_threshold config of
        None \<Rightarrow> Inr (empty_like df)
      | Some threshold \<Rightarrow>
         (case getitem df WATER_TEMPERATURE of
            Inl e \<Rightarrow> Inl e
          | Inr cells \<Rightarrow>
             (case as_float cells of
                Inl e \<Rightarrow> Inl e
              | Inr temperature \<Rightarrow>
                 (let flags = map (\<lambda>v. fgt v (Fin threshold)) temperature;
                      flagged = loc_mask df flags
                  in setitem flagged ''temperature_excess'' Float64
                       (map (\<lambda>v. F (fsub v (Fin threshold))) (mask_select flags temperature))))))"

section \<open>Spellings of the units\<close>

text \<open>The strings that are kPa or psi up to letter case, listed one by one.\<close>

definition kpa_spellings :: "string list" where
  "kpa_spellings = [''kpa'', ''kpA'', ''kPa'', ''kPA'', ''Kpa'', ''KpA'', ''KPa'', ''KPA'']"


section \<open>Reading the quality checks\<close>






section \<open>More of pandas\<close>

fun isna :: "cell \<Rightarrow> bool" where
  "isna (F v) = (v = NaN)"
| "isna (T t) = (t = None)"
| "isna (S s) = False"

fun time_of :: "cell \<Rightarrow> int option" where
  "time_of (T t) = t"
| "time_of _ = None"

text \<open>The missing value of a column, by its dtype.\<close>

fun null_of :: "dtype \<Rightarrow> cell" where
  "null_of Datetime64 = T None"
| "null_of _ = F NaN"

definition dtype_of :: "frame \<Rightarrow> string \<Rightarrow> dtype" where
  "dtype_of df name = (case map_of (columns df) name of Some dt \<Rightarrow> dt | None \<Rightarrow> Object)"

text \<open>A dict literal: a later pair overrides an earlier one with the same key.\<close>

definition dict :: "('k \<times> 'v) list \<Rightarrow> 'k \<Rightarrow> 'v option" where
  "dict pairs = map_of (rev pairs)"

text \<open>
  \<open>df.rename(columns=mapping)\<close>: every label that is a key of the mapping is replaced, the
  others stay.
\<close>

definition relabel :: "(string \<Rightarrow> string) \<Rightarrow> row \<Rightarrow> row" where
  "relabel f r = map (\<lambda>(name, v). (f name, v)) r"

definition rename :: "(string \<Rightarrow> string option) \<Rightarrow> frame \<Rightarrow> error + frame" where
  "rename mapping df =
     (let f = (\<lambda>name. case mapping name of Some new \<Rightarrow> new | None \<Rightarrow> name);
          cols = map (\<lambda>(name, dt). (f name, dt)) (columns df)
      in if \<not> distinct (map fst cols) then Inl DuplicateLabels
         else Inr \<lparr> columns = cols, rows = map (relabel f) (rows df) \<rparr>)"

text \<open>\<open>df[[name, ...]]\<close>\<close>

definition select_columns :: "frame \<Rightarrow> string list \<Rightarrow> error + frame" where
  "select_columns df names =
     (if \<not> list_all (contains df) names then Inl KeyError
      else if \<not> distinct names then Inl DuplicateLabels
      else Inr \<lparr> columns = map (\<lambda>name. (name, dtype_of df name)) names,
                 rows = map (\<lambda>r. map (\<lambda>name. (name, cell_of r name)) names) (rows df) \<rparr>)"

text \<open>\<open>df.dropna(subset=names)\<close>: the rows with no missing value in the named columns.\<close>

definition dropna :: "frame \<Rightarrow> string list \<Rightarrow> error + frame" where
  "dropna df names =
     (if \<not> list_all (contains df) names then Inl KeyError
      else Inr (df \<lparr> rows := filter (\<lambda>r. \<not> list_ex (\<lambda>name. isna (cell_of r name)) names) (rows df) \<rparr>))"

text \<open>
  \<open>df.sort_values(name)\<close> on a column of timestamps: ascending, \<open>NaT\<close> last. The sort is
  taken to be stable (numpy's default sort keeps the order of equal keys on short
  columns only).
\<close>

definition sort_values :: "frame \<Rightarrow> string \<Rightarrow> error + frame" where
  "sort_values df name =
     (if \<not> contains df name then Inl KeyError
      else
        let key = (\<lambda>r. time_of (cell_of r name)) in
        Inr (df \<lparr> rows :=
               sort_key (\<lambda>r. case key r of Some t \<Rightarrow> t | None \<Rightarrow> 0)
                 (filter (\<lambda>r. key r \<noteq> None) (rows df))
               @ filter (\<lambda>r. key r = None) (rows df) \<rparr>))"

subsection \<open>merge_asof, direction nearest\<close>

text \<open>
  The candidates of a left key \<open>t\<close> among the right rows, which are sorted by key: the
  last row whose key is at most \<open>t\<close> and the first row whose key is at least \<open>t\<close>, each
  kept only when it is within the tolerance. Of two candidates the nearer one is taken, the
  backward one when both are as near.
\<close>

definition asof_backward :: "int \<Rightarrow> int \<Rightarrow> (int \<times> 'a) list \<Rightarrow> (int \<times> 'a) option" where
  "asof_backward tolerance t right =
     (case rev (takeWhile (\<lambda>(k, r). k \<le> t) right) of
        [] \<Rightarrow> None
      | (k, r) # _ \<Rightarrow> if t - k > tolerance then None else Some (k, r))"

definition asof_forward :: "int \<Rightarrow> int \<Rightarrow> (int \<times> 'a) list \<Rightarrow> (int \<times> 'a) option" where
  "asof_forward tolerance t right =
     (case dropWhile (\<lambda>(k, r). k < t) right of
        [] \<Rightarrow> None
      | (k, r) # _ \<Rightarrow> if k - t > tolerance then None else Some (k, r))"

definition asof_nearest :: "int \<Rightarrow> int \<Rightarrow> (int \<times> 'a) list \<Rightarrow> (int \<times> 'a) option" where
  "asof_nearest tolerance t right =
     (case asof_backward tolerance t right of
        None \<Rightarrow> asof_forward tolerance t right
      | Some (bk, b) \<Rightarrow>
         (case asof_forward tolerance t right of
            None \<Rightarrow> Some (bk, b)
          | Some (fk, f) \<Rightarrow> if t - bk \<le> fk - t then Some (bk, b) else Some (fk, f)))"

definition drop_column :: "frame \<Rightarrow> string \<Rightarrow> frame" where
  "drop_column df name =
     \<lparr> columns = AList.delete name (columns df), rows = map (AList.delete name) (rows df) \<rparr>"

text \<open>The key of a row; the keys are checked to be timestamps before this is used.\<close>

definition key_of :: "string \<Rightarrow> row \<Rightarrow> int" where
  "key_of name r = (case time_of (cell_of r name) of Some t \<Rightarrow> t | None \<Rightarrow> 0)"

text \<open>
  The right table without its key column, when that has the name of the left key: the
  result then has the one key column of the left table.
\<close>

definition right_rest :: "frame \<Rightarrow> string \<Rightarrow> string \<Rightarrow> frame" where
  "right_rest right left_on right_on =
     (if left_on = right_on then drop_column right right_on else right)"

text \<open>The labels that both tables have get a suffix, \<open>_x\<close> on the left and \<open>_y\<close> on the right.\<close>

definition shared_labels :: "frame \<Rightarrow> frame \<Rightarrow> string list" where
  "shared_labels left rest = filter (\<lambda>name. name \<in> set (labels rest)) (labels left)"

definition suffixed :: "string list \<Rightarrow> string \<Rightarrow> string \<Rightarrow> string" where
  "suffixed both suffix name = (if name \<in> set both then name @ suffix else name)"

text \<open>The right-hand cells of a result row: those of the matched row, or missing values.\<close>

definition right_cells ::
  "string list \<Rightarrow> (string \<times> dtype) list \<Rightarrow> (int \<times> row) option \<Rightarrow> row" where
  "right_cells both rcols found =
     (case found of
        None \<Rightarrow> map (\<lambda>(name, dt). (name, null_of dt)) rcols
      | Some (k, r) \<Rightarrow> relabel (suffixed both ''_y'') r)"

text \<open>
  \<open>pd.merge_asof(left, right, left_on=.., right_on=.., direction="nearest", tolerance=..)\<close>
  on timestamp keys. A negative tolerance is a MergeError; a missing key and unsorted keys
  are ValueErrors. Labels that collide within one table after the suffixes are a MergeError.
  The result has one row for each left row, in order: its cells, then the right-hand cells.
\<close>

definition merge_asof :: "frame \<Rightarrow> frame \<Rightarrow> string \<Rightarrow> string \<Rightarrow> int \<Rightarrow> error + frame" where
  "merge_asof left right left_on right_on tolerance =
     (if \<not> contains left left_on \<or> \<not> contains right right_on then Inl KeyError
      else if tolerance < 0 then Inl MergeError
      else if list_ex (\<lambda>r. time_of (cell_of r left_on) = None) (rows left)
            \<or> list_ex (\<lambda>r. time_of (cell_of r right_on) = None) (rows right) then Inl ValueError
      else if \<not> sorted (map (key_of left_on) (rows left))
            \<or> \<not> sorted (map (key_of right_on) (rows right)) then Inl ValueError
      else
        let rest = right_rest right left_on right_on;
            keyed = zip (map (key_of right_on) (rows right)) (rows rest);
            both = shared_labels left rest;
            lcols = map (\<lambda>(name, dt). (suffixed both ''_x'' name, dt)) (columns left);
            rcols = map (\<lambda>(name, dt). (suffixed both ''_y'' name, dt)) (columns rest)
        in if \<not> distinct (map fst lcols) \<or> \<not> distinct (map fst rcols) then Inl MergeError
           else if \<not> distinct (map fst (lcols @ rcols)) then Inl DuplicateLabels
           else Inr \<lparr> columns = lcols @ rcols,
                      rows = map (\<lambda>l. relabel (suffixed both ''_x'') l
                                      @ right_cells both rcols
                                          (asof_nearest tolerance (key_of left_on l) keyed))
                               (rows left) \<rparr>)"

section \<open>calculations.py: compute_wse\<close>

text \<open>
  The pandas functions that read text: \<open>pd.to_datetime(column, errors="coerce")\<close>,
  which gives a timestamp or \<open>NaT\<close> for every cell; \<open>Series.dt.tz_localize\<close> with the
  arguments of the code, which may raise; \<open>pd.to_timedelta\<close>, which gives nanoseconds or
  raises ValueError (\<open>None\<close> here); and the conversion of a cell that is not a timestamp
  by \<open>pd.DatetimeIndex\<close>, which raises where it cannot convert. They are parameters of
  the model.
\<close>

record pandas =
  to_datetime :: "cell list \<Rightarrow> int option list"
  tz_localize :: "string \<Rightarrow> int option list \<Rightarrow> error + int option list"
  to_timedelta :: "string \<Rightarrow> int option"
  datetime_strict :: "cell \<Rightarrow> error + int option"

text \<open>Sequencing: the first exception raised ends the computation.\<close>

definition and_then :: "error + 'a \<Rightarrow> ('a \<Rightarrow> error + 'b) \<Rightarrow> error + 'b" where
  "and_then m f = (case m of Inl e \<Rightarrow> Inl e | Inr x \<Rightarrow> f x)"

text \<open>The body of the loop over the two tables: parse, localise, sort.\<close>

definition localize :: "pandas \<Rightarrow> ProcessingConfig \<Rightarrow> int option list \<Rightarrow> error + int option list" where
  "localize pd config parsed =
     (case timezone config of
        None \<Rightarrow> Inr parsed
      | Some tz \<Rightarrow> if tz = [] then Inr parsed else tz_localize pd tz parsed)"

definition prepare :: "pandas \<Rightarrow> ProcessingConfig \<Rightarrow> frame \<Rightarrow> string \<Rightarrow> error + frame" where
  "prepare pd config df timestamp_col =
     and_then (getitem df timestamp_col) (\<lambda>cells.
     and_then (localize pd config (to_datetime pd cells)) (\<lambda>stamps.
     and_then (setitem df timestamp_col Datetime64 (map T stamps)) (\<lambda>df'.
     sort_values df' timestamp_col)))"

text \<open>An optional column name counts when it is given and not empty.\<close>

definition given :: "string option \<Rightarrow> string list" where
  "given col = (case col of None \<Rightarrow> [] | Some name \<Rightarrow> if name = [] then [] else [name])"

definition rename_given :: "string option \<Rightarrow> string \<Rightarrow> frame \<Rightarrow> error + frame" where
  "rename_given col new df =
     (case given col of [] \<Rightarrow> Inr df | name # _ \<Rightarrow> rename (dict [(name, new)]) df)"

definition timedelta :: "pandas \<Rightarrow> string \<Rightarrow> error + int" where
  "timedelta pd s = (case to_timedelta pd s of None \<Rightarrow> Inl ValueError | Some d \<Rightarrow> Inr d)"

text \<open>A numeric column: \<open>df[name]\<close>, read for arithmetic.\<close>

definition float_column :: "frame \<Rightarrow> string \<Rightarrow> error + fval list" where
  "float_column df name = and_then (getitem df name) as_float"

text \<open>The computed columns, lines 99 to 103.\<close>

definition add_computed :: "ProcessingConfig \<Rightarrow> frame \<Rightarrow> error + frame" where
  "add_computed config merged =
     and_then (float_column merged WATER_PRESSURE) (\<lambda>wp.
     and_then (float_column merged BARO_PRESSURE) (\<lambda>bp.
     and_then (setitem merged GAUGE_PRESSURE Float64 (map F (map2 fsub wp bp))) (\<lambda>merged.
     and_then (float_column merged GAUGE_PRESSURE) (\<lambda>gauge.
     and_then (gauge_to_depth gauge (fluid_density config) (pressure_units config)) (\<lambda>depth.
     and_then (setitem merged WATER_DEPTH Float64 (map F depth)) (\<lambda>merged.
     and_then (float_column merged WATER_DEPTH) (\<lambda>depth.
     setitem merged WSE Float64 (map (\<lambda>d. F (fadd (Fin (reference_datum config)) d)) depth))))))))"

text \<open>Lines 68 to 95: the two tables prepared, merged, and the columns renamed.\<close>

definition align ::
  "pandas \<Rightarrow> frame \<Rightarrow> frame \<Rightarrow> ProcessingConfig \<Rightarrow> string \<Rightarrow> string \<Rightarrow> string option
     \<Rightarrow> string option \<Rightarrow> string \<Rightarrow> string \<Rightarrow> error + frame" where
  "align pd water barometric config water_pressure_col baro_pressure_col water_temp_col
       baro_temp_col timestamp_col_water timestamp_col_baro =
     and_then (prepare pd config water timestamp_col_water) (\<lambda>df_water.
     and_then (prepare pd config barometric timestamp_col_baro) (\<lambda>df_baro.
     and_then (select_columns df_baro
                 ([timestamp_col_baro, baro_pressure_col] @ given baro_temp_col)) (\<lambda>right.
     and_then (timedelta pd (merge_tolerance config)) (\<lambda>tolerance.
     and_then (merge_asof df_water right timestamp_col_water timestamp_col_baro tolerance) (\<lambda>merged.
     and_then (rename (dict [(timestamp_col_water, TIMESTAMP),
                             (water_pressure_col, WATER_PRESSURE),
                             (baro_pressure_col, BARO_PRESSURE)]) merged) (\<lambda>merged.
     and_then (rename_given water_temp_col WATER_TEMPERATURE merged) (\<lambda>merged.
     rename_given baro_temp_col AIR_TEMPERATURE merged)))))))"

definition compute_wse ::
  "pandas \<Rightarrow> frame \<Rightarrow> frame \<Rightarrow> ProcessingConfig \<Rightarrow> string \<Rightarrow> string \<Rightarrow> string option
     \<Rightarrow> string option \<Rightarrow> string \<Rightarrow> string \<Rightarrow> error + frame" where
  "compute_wse pd water barometric config water_pressure_col baro_pressure_col water_temp_col
       baro_temp_col timestamp_col_water timestamp_col_baro =
     and_then (align pd water barometric config water_pressure_col baro_pressure_col
                 water_temp_col baro_temp_col timestamp_col_water timestamp_col_baro) (\<lambda>merged.
     and_then (dropna merged [TIMESTAMP, WATER_PRESSURE, BARO_PRESSURE]) (\<lambda>merged.
     add_computed config merged))"

section \<open>calculations.py: summarise_timeseries\<close>

text \<open>
  \<open>pd.DatetimeIndex(column)\<close>: the timestamps of the column; a cell that is not one is
  converted, or the constructor raises.
\<close>

fun index_cell :: "pandas \<Rightarrow> cell \<Rightarrow> error + int option" where
  "index_cell pd (T t) = Inr t"
| "index_cell pd c = datetime_strict pd c"

fun DatetimeIndex :: "pandas \<Rightarrow> cell list \<Rightarrow> error + int option list" where
  "DatetimeIndex pd [] = Inr []"
| "DatetimeIndex pd (c # cs) =
     and_then (index_cell pd c) (\<lambda>t. and_then (DatetimeIndex pd cs) (\<lambda>ts. Inr (t # ts)))"

text \<open>
  The result of \<open>resample(rule).mean(numeric_only=True)\<close>: the labels of the bins, which are
  its index, and one row of means for each.
\<close>

record resampled =
  bins :: "int list"
  means :: frame

definition DAY :: int where
  "DAY = 86400000000000"

text \<open>The label of the bin of a timestamp (nanoseconds, no time zone): its day.\<close>

definition day_label :: "int \<Rightarrow> int" where
  "day_label t = (t div DAY) * DAY"

text \<open>
  Rule \<open>1W\<close> is weeks that end on Sunday, labelled by that Sunday; day 0 is a Thursday.
\<close>

definition week_label :: "int \<Rightarrow> int" where
  "week_label t = (let d = t div DAY in (d + (3 - d) mod 7) * DAY)"

text \<open>The mean of the values that are not NaN; NaN when there is none.\<close>

definition mean :: "fval list \<Rightarrow> fval" where
  "mean xs =
     (let vs = filter (\<lambda>v. v \<noteq> NaN) xs in
      if vs = [] then NaN else fdiv (foldl fadd (Fin 0) vs) (Fin (real (length vs))))"

definition float_at :: "row \<Rightarrow> string \<Rightarrow> fval" where
  "float_at r name = (case float_of (cell_of r name) of Some v \<Rightarrow> v | None \<Rightarrow> NaN)"

definition numeric_columns :: "frame \<Rightarrow> (string \<times> dtype) list" where
  "numeric_columns df = filter (\<lambda>(name, dt). dt = Float64) (columns df)"

text \<open>
  Resampling: the rows without a timestamp are left out; there is a bin for every step
  from the first label to the last, also where no row falls into it; a table with rows but
  no timestamp at all has no range of bins, which is a ValueError.
\<close>

definition resample_mean ::
  "(int \<Rightarrow> int) \<Rightarrow> int \<Rightarrow> int option list \<Rightarrow> frame \<Rightarrow> error + resampled" where
  "resample_mean label step index df =
     (let stamped = concat (map2 (\<lambda>t r. case t of None \<Rightarrow> [] | Some t \<Rightarrow> [(label t, r)])
                              index (rows df));
          cols = numeric_columns df
      in case rows df of
           [] \<Rightarrow> Inr \<lparr> bins = [], means = \<lparr> columns = cols, rows = [] \<rparr> \<rparr>
         | _ # _ \<Rightarrow>
            (case map fst stamped of
               [] \<Rightarrow> Inl ValueError
             | b # bs \<Rightarrow>
                (let lo = fold min bs b; hi = fold max bs b;
                     labels = map (\<lambda>i. lo + i * step) [0..(hi - lo) div step]
                 in Inr \<lparr> bins = labels,
                          means = \<lparr> columns = cols,
                            rows = map (\<lambda>b. map (\<lambda>(name, dt).
                                      (name, F (mean (map (\<lambda>(l, r). float_at r name)
                                                   (filter (\<lambda>(l, r). l = b) stamped)))))
                                      cols) labels \<rparr> \<rparr>)))"

definition summarise_timeseries :: "pandas \<Rightarrow> frame \<Rightarrow> error + resampled \<times> resampled" where
  "summarise_timeseries pd df =
     and_then (getitem df TIMESTAMP) (\<lambda>cells.
     and_then (DatetimeIndex pd cells) (\<lambda>index.
     and_then (resample_mean day_label DAY index df) (\<lambda>daily.
     and_then (resample_mean week_label (7 * DAY) index df) (\<lambda>weekly.
     Inr (daily, weekly)))))"

section \<open>Example tables\<close>

text \<open>
  A pandas whose tables already hold timestamps, and two loggers: the water logger has a
  reading without temperature, one below the barometric pressure, and one six hours away
  from every barometric reading.
\<close>

definition simple_pandas :: pandas where
  "simple_pandas = \<lparr> to_datetime = map time_of, tz_localize = (\<lambda>tz ts. Inr ts),
      to_timedelta = (\<lambda>s. if s = ''15min'' then Some 900000000000 else None),
      datetime_strict = (\<lambda>c. Inl ValueError) \<rparr>"

definition water_ex :: frame where
  "water_ex = \<lparr> columns = [(''Date Time'', Object), (''Abs Pres W'', Float64), (''Temp W'', Float64)],
     rows = [[(''Date Time'', T (Some 3600000000000)), (''Abs Pres W'', F (Fin 101.4)), (''Temp W'', F NaN)],
             [(''Date Time'', T (Some 0)), (''Abs Pres W'', F (Fin 101.3)), (''Temp W'', F (Fin 12))],
             [(''Date Time'', T (Some 7200000000000)), (''Abs Pres W'', F (Fin 100.5)), (''Temp W'', F (Fin 12))],
             [(''Date Time'', T (Some 20000000000000)), (''Abs Pres W'', F (Fin 100.5)), (''Temp W'', F (Fin 12))]] \<rparr>"

definition baro_ex :: frame where
  "baro_ex = \<lparr> columns = [(''Date Time'', Object), (''Abs Pres B'', Float64)],
     rows = [[(''Date Time'', T (Some 0)), (''Abs Pres B'', F (Fin 101.0))],
             [(''Date Time'', T (Some 3500000000000)), (''Abs Pres B'', F (Fin 101.0))],
             [(''Date Time'', T (Some 7300000000000)), (''Abs Pres B'', F (Fin 101.0))]] \<rparr>"

definition config_ex :: ProcessingConfig where
  "config_ex = \<lparr> reference_datum = 100, fluid_density = 1000, pressure_units = ''kPa'',
     timezone = None, merge_tolerance = ''15min'' \<rparr>"

definition day_ex :: frame where
  "day_ex = \<lparr> columns = [(TIMESTAMP, Datetime64), (WSE, Float64), (''note'', Object)],
     rows = [[(TIMESTAMP, T (Some (3 * DAY + 5))), (WSE, F (Fin 100)), (''note'', S ''a'')],
             [(TIMESTAMP, T (Some (3 * DAY + 9))), (WSE, F (Fin 102)), (''note'', S ''a'')],
             [(TIMESTAMP, T None), (WSE, F (Fin 102)), (''note'', S ''a'')],
             [(TIMESTAMP, T (Some (5 * DAY))), (WSE, F (Fin 104)), (''note'', S ''a'')]] \<rparr>"

definition wse_ex :: frame where
  "wse_ex = \<lparr> columns =
        [(TIMESTAMP, Datetime64), (WATER_PRESSURE, Float64),
         (WATER_TEMPERATURE, Float64), (BARO_PRESSURE, Float64),
         (GAUGE_PRESSURE, Float64), (WATER_DEPTH, Float64), (WSE, Float64)],
        rows =
          [[(TIMESTAMP, T (Some 0)), (WATER_PRESSURE, F (Fin 101.3)),
            (WATER_TEMPERATURE, F (Fin 12)), (BARO_PRESSURE, F (Fin 101)),
            (GAUGE_PRESSURE, F (Fin 0.3)),
            (WATER_DEPTH, F (Fin (300 / 9806.65))),
            (WSE, F (Fin (100 + 300 / 9806.65)))],
           [(TIMESTAMP, T (Some 3600000000000)),
            (WATER_PRESSURE, F (Fin 101.4)), (WATER_TEMPERATURE, F NaN),
            (BARO_PRESSURE, F (Fin 101)), (GAUGE_PRESSURE, F (Fin 0.4)),
            (WATER_DEPTH, F (Fin (400 / 9806.65))),
            (WSE, F (Fin (100 + 400 / 9806.65)))],
           [(TIMESTAMP, T (Some 7200000000000)),
            (WATER_PRESSURE, F (Fin 100.5)),
            (WATER_TEMPERATURE, F (Fin 12)), (BARO_PRESSURE, F (Fin 101)),
            (GAUGE_PRESSURE, F (Fin (- 0.5))),
            (WATER_DEPTH, F (Fin (- 500 / 9806.65))),
            (WSE, F (Fin (100 - 500 / 9806.65)))]] \<rparr>"

text \<open>The three computed cells of a row, for the conversion factor \<open>k\<close>.\<close>

definition computed_row :: "ProcessingConfig \<Rightarrow> real \<Rightarrow> row \<Rightarrow> row" where
  "computed_row config k r =
     (let gauge = fsub (float_at r WATER_PRESSURE) (float_at r BARO_PRESSURE);
          depth = fdiv (fmul gauge (Fin k)) (Fin (fluid_density config * GRAVITY))
      in AList.update WSE (F (fadd (Fin (reference_datum config)) depth))
           (AList.update WATER_DEPTH (F depth)
              (AList.update GAUGE_PRESSURE (F gauge) r)))"

section \<open>Reading the result of the merge\<close>





section \<open>Properties of the unit conversion\<close>

lemma of_char_lower:
  "(of_char (lower_char c) :: nat) =
     (if 65 \<le> (of_char c :: nat) \<and> (of_char c :: nat) \<le> 90 then of_char c + 32 else of_char c)"
  by (simp add: lower_char_def Let_def)

lemma char_eq_code: "c = d \<longleftrightarrow> (of_char c :: nat) = of_char d"
  by simp

lemma lower_char_k: "lower_char c = CHR ''k'' \<longleftrightarrow> c = CHR ''k'' \<or> c = CHR ''K''"
  unfolding char_eq_code [of _ "CHR ''k''"] char_eq_code [of _ "CHR ''K''"] of_char_lower
  by (simp split: if_splits) arith

lemma lower_char_p: "lower_char c = CHR ''p'' \<longleftrightarrow> c = CHR ''p'' \<or> c = CHR ''P''"
  unfolding char_eq_code [of _ "CHR ''p''"] char_eq_code [of _ "CHR ''P''"] of_char_lower
  by (simp split: if_splits) arith

lemma lower_char_a: "lower_char c = CHR ''a'' \<longleftrightarrow> c = CHR ''a'' \<or> c = CHR ''A''"
  unfolding char_eq_code [of _ "CHR ''a''"] char_eq_code [of _ "CHR ''A''"] of_char_lower
  by (simp split: if_splits) arith



lemma map3: "map f s = [a, b, c] \<longleftrightarrow> (\<exists>x y z. s = [x, y, z] \<and> f x = a \<and> f y = b \<and> f z = c)"
  by (auto simp: map_eq_Cons_conv)

lemma lower_kpa: "lower u = ''kpa'' \<longleftrightarrow> u \<in> set kpa_spellings"
  unfolding lower_def map3 lower_char_k lower_char_p lower_char_a kpa_spellings_def
  by auto







lemma fdiv_finite: "k \<noteq> 0 \<Longrightarrow> fdiv (fmul (Fin x) (Fin c)) (Fin k) = Fin (x * c / k)"
  by simp



section \<open>Properties of the configuration and the depth\<close>




section \<open>Properties of the quality checks\<close>

text \<open>
  C8. When the table has no water-depth column, \<open>flag_shifts\<close> raises KeyError (the
  missing-column error), whatever else the table and the configuration hold.
\<close>

theorem flag_shifts_missing_column:
  "\<not> contains df WATER_DEPTH \<Longrightarrow> flag_shifts df config = Inl KeyError"
  by (simp add: flag_shifts_def)

theorem flag_shifts_missing_column_witness:
  "\<not> contains \<lparr> columns = [(TIMESTAMP, Datetime64), (WATER_TEMPERATURE, Float64)],
                 rows = [[(TIMESTAMP, T (Some 0)), (WATER_TEMPERATURE, F (Fin 12))]] \<rparr> WATER_DEPTH
   \<and> flag_shifts \<lparr> columns = [(TIMESTAMP, Datetime64), (WATER_TEMPERATURE, Float64)],
                 rows = [[(TIMESTAMP, T (Some 0)), (WATER_TEMPERATURE, F (Fin 12))]] \<rparr>
        \<lparr> shift_threshold = 0.15, temperature_threshold = None \<rparr> = Inl KeyError"
proof -
  have h: "\<not> contains \<lparr> columns = [(TIMESTAMP, Datetime64), (WATER_TEMPERATURE, Float64)],
                 rows = [[(TIMESTAMP, T (Some 0)), (WATER_TEMPERATURE, F (Fin 12))]] \<rparr> WATER_DEPTH"
    by (simp add: contains_def labels_def)
  show ?thesis using h flag_shifts_missing_column [OF h] by simp
qed

text \<open>
  C7, at a threshold of zero: the temperature check is switched off and the result is the
  empty table, although the one reading, 5 degrees, exceeds the threshold; with a threshold of
  1 the same reading is flagged.
\<close>

theorem zero_threshold_disables_check:
  "flag_temperature_outliers
     \<lparr> columns = [(WATER_TEMPERATURE, Float64)], rows = [[(WATER_TEMPERATURE, F (Fin 5))]] \<rparr>
     \<lparr> shift_threshold = 0.15, temperature_threshold = Some 0 \<rparr>
   = Inr \<lparr> columns = [(WATER_TEMPERATURE, Object)], rows = [] \<rparr>
   \<and> flag_temperature_outliers
     \<lparr> columns = [(WATER_TEMPERATURE, Float64)], rows = [[(WATER_TEMPERATURE, F (Fin 5))]] \<rparr>
     \<lparr> shift_threshold = 0.15, temperature_threshold = Some 1 \<rparr>
   = Inr \<lparr> columns = [(WATER_TEMPERATURE, Float64), (''temperature_excess'', Float64)],
           rows = [[(WATER_TEMPERATURE, F (Fin 5)), (''temperature_excess'', F (Fin 4))]] \<rparr>"
  by (simp add: flag_temperature_outliers_def falsy_def contains_def labels_def empty_like_def
      getitem_def cell_of_def setitem_def loc_mask_def mask_select_def fsub_def)


subsection \<open>Selection by a mask, by position\<close>



lemma update_new_key: "k \<notin> fst ` set al \<Longrightarrow> AList.update k v al = al @ [(k, v)]"
  by (induction al) auto





lemma map2_same: "map2 g (map a js) (map b js) = map (\<lambda>i. g (a i) (b i)) js"
  by (induction js) simp_all









lemma cell_of_update:
  "cell_of (AList.update k v r) c = (if c = k then v else cell_of r c)"
  by (simp add: cell_of_def AList.update_conv')







section \<open>Properties of compute_wse\<close>

subsection \<open>The worked example\<close>

lemma and_then_Inr [simp]: "and_then (Inr x) f = f x"
  by (simp add: and_then_def)

lemma and_then_Inl [simp]: "and_then (Inl e) f = Inl e"
  by (simp add: and_then_def)

lemma prepare_water_ex:
  "prepare simple_pandas config_ex water_ex ''Date Time'' =
     Inr \<lparr> columns = [(''Date Time'', Datetime64), (''Abs Pres W'', Float64), (''Temp W'', Float64)],
     rows = [[(''Date Time'', T (Some 0)), (''Abs Pres W'', F (Fin 101.3)), (''Temp W'', F (Fin 12))],
             [(''Date Time'', T (Some 3600000000000)), (''Abs Pres W'', F (Fin 101.4)), (''Temp W'', F NaN)],
             [(''Date Time'', T (Some 7200000000000)), (''Abs Pres W'', F (Fin 100.5)), (''Temp W'', F (Fin 12))],
             [(''Date Time'', T (Some 20000000000000)), (''Abs Pres W'', F (Fin 100.5)), (''Temp W'', F (Fin 12))]] \<rparr>"
  by (simp add: prepare_def simple_pandas_def config_ex_def water_ex_def getitem_def contains_def
      labels_def cell_of_def localize_def setitem_def sort_values_def)

lemma prepare_baro_ex:
  "prepare simple_pandas config_ex baro_ex ''Date Time'' =
     Inr \<lparr> columns = [(''Date Time'', Datetime64), (''Abs Pres B'', Float64)],
     rows = [[(''Date Time'', T (Some 0)), (''Abs Pres B'', F (Fin 101.0))],
             [(''Date Time'', T (Some 3500000000000)), (''Abs Pres B'', F (Fin 101.0))],
             [(''Date Time'', T (Some 7300000000000)), (''Abs Pres B'', F (Fin 101.0))]] \<rparr>"
  by (simp add: prepare_def simple_pandas_def config_ex_def baro_ex_def getitem_def contains_def
      labels_def cell_of_def localize_def setitem_def sort_values_def)

lemma compute_wse_ex:
  "compute_wse simple_pandas water_ex baro_ex config_ex ''Abs Pres W'' ''Abs Pres B''
     (Some ''Temp W'') None ''Date Time'' ''Date Time'' = Inr wse_ex"
  unfolding compute_wse_def align_def prepare_water_ex prepare_baro_ex
  apply (simp add: select_columns_def contains_def labels_def given_def dtype_of_def cell_of_def
      timedelta_def simple_pandas_def config_ex_def)
  apply (simp add: merge_asof_def contains_def labels_def cell_of_def key_of_def AList.delete_eq
      right_rest_def drop_column_def shared_labels_def suffixed_def right_cells_def
      relabel_def asof_nearest_def asof_backward_def asof_forward_def Let_def)
  apply (simp add: rename_def dict_def rename_given_def given_def relabel_def Let_def)
  apply (simp add: dropna_def contains_def labels_def cell_of_def)
  apply (simp add: add_computed_def float_column_def getitem_def contains_def labels_def cell_of_def
       setitem_def fsub_def gauge_to_depth_def to_pascal_def lower_kpa kpa_spellings_def
       KPA_TO_PASCAL_def GRAVITY_def wse_ex_def)
  done

subsection \<open>The computed columns\<close>

lemma and_then_eq_Inr: "and_then m f = Inr y \<longleftrightarrow> (\<exists>x. m = Inr x \<and> f x = Inr y)"
  by (cases m) simp_all

lemma as_float_map: "as_float cs = Inr vs \<Longrightarrow> cs = map F vs"
proof (induction cs arbitrary: vs)
  case Nil
  then show ?case by simp
next
  case (Cons c cs)
  then show ?case
    by (cases c) (auto split: sum.splits)
qed

lemma float_column_Inr:
  assumes "float_column df name = Inr vs"
  shows "vs = map (\<lambda>r. float_at r name) (rows df)"
    and "\<And>r. r \<in> set (rows df) \<Longrightarrow> cell_of r name = F (float_at r name)"
proof -
  from assms obtain cells where c: "getitem df name = Inr cells" and a: "as_float cells = Inr vs"
    by (auto simp: float_column_def and_then_eq_Inr)
  from c have cells: "cells = map (\<lambda>r. cell_of r name) (rows df)"
    by (auto simp: getitem_def split: if_splits)
  from as_float_map [OF a] cells have e: "map (\<lambda>r. cell_of r name) (rows df) = map F vs" by simp
  have "map (\<lambda>r. float_at r name) (rows df) = map (\<lambda>c. case float_of c of Some v \<Rightarrow> v | None \<Rightarrow> NaN) (map (\<lambda>r. cell_of r name) (rows df))"
    by (simp add: float_at_def o_def)
  also have "\<dots> = vs" unfolding e by (simp add: o_def)
  finally show "vs = map (\<lambda>r. float_at r name) (rows df)" by simp
  then have "map (\<lambda>r. cell_of r name) (rows df) = map (\<lambda>r. F (float_at r name)) (rows df)"
    using e by (simp add: o_def)
  then show "\<And>r. r \<in> set (rows df) \<Longrightarrow> cell_of r name = F (float_at r name)"
    by (simp add: map_eq_conv)
qed

lemma map2_map_same: "map2 h xs (map g xs) = map (\<lambda>x. h x (g x)) xs"
  by (induction xs) simp_all

lemma map_map2_same: "map f (map2 h (map a xs) (map b xs)) = map (\<lambda>x. f (h (a x) (b x))) xs"
  by (induction xs) simp_all

lemma setitem_map:
  "setitem df name dt (map g (rows df)) =
     Inr \<lparr> columns = AList.update name dt (columns df),
           rows = map (\<lambda>r. AList.update name (g r) r) (rows df) \<rparr>"
  by (simp add: setitem_def map2_map_same)

lemma setitem_map_base:
  assumes "rows df = map u base"
  shows "setitem df name dt (map g base) =
     Inr \<lparr> columns = AList.update name dt (columns df),
           rows = map (\<lambda>x. AList.update name (g x) (u x)) base \<rparr>"
proof -
  have "map2 (\<lambda>r v. AList.update name v r) (map u base) (map g base) =
      map (\<lambda>x. AList.update name (g x) (u x)) base"
    by (rule map2_same)
  then show ?thesis by (simp add: setitem_def assms)
qed

lemma float_at_update:
  "float_at (AList.update k (F v) r) name = (if name = k then v else float_at r name)"
  by (simp add: float_at_def cell_of_update)

lemma add_computed_Inr:
  assumes "add_computed config merged = Inr out"
  shows "\<exists>k. (\<forall>series. to_pascal series (pressure_units config) = Inr (map (\<lambda>v. fmul v (Fin k)) series))
     \<and> rows out = map (computed_row config k) (rows merged)
     \<and> (\<forall>r \<in> set (rows merged). cell_of r WATER_PRESSURE = F (float_at r WATER_PRESSURE)
            \<and> cell_of r BARO_PRESSURE = F (float_at r BARO_PRESSURE))"
proof -
  from assms obtain wp bp m1 gauge depth m2 d where
    wp: "float_column merged WATER_PRESSURE = Inr wp"
    and bp: "float_column merged BARO_PRESSURE = Inr bp"
    and m1: "setitem merged GAUGE_PRESSURE Float64 (map F (map2 fsub wp bp)) = Inr m1"
    and g: "float_column m1 GAUGE_PRESSURE = Inr gauge"
    and dp: "gauge_to_depth gauge (fluid_density config) (pressure_units config) = Inr depth"
    and m2: "setitem m1 WATER_DEPTH Float64 (map F depth) = Inr m2"
    and d: "float_column m2 WATER_DEPTH = Inr d"
    and out: "setitem m2 WSE Float64 (map (\<lambda>v. F (fadd (Fin (reference_datum config)) v)) d) = Inr out"
    unfolding add_computed_def and_then_eq_Inr by blast
  define G where "G = (\<lambda>r. fsub (float_at r WATER_PRESSURE) (float_at r BARO_PRESSURE))"
  have "map F (map2 fsub wp bp) = map (\<lambda>r. F (G r)) (rows merged)"
    unfolding float_column_Inr(1) [OF wp] float_column_Inr(1) [OF bp] G_def
    by (rule map_map2_same)
  with m1 have m1_eq: "m1 = \<lparr> columns = AList.update GAUGE_PRESSURE Float64 (columns merged),
           rows = map (\<lambda>r. AList.update GAUGE_PRESSURE (F (G r)) r) (rows merged) \<rparr>"
    by (simp add: setitem_map)
  have gauge: "gauge = map G (rows merged)"
    unfolding float_column_Inr(1) [OF g] m1_eq by (simp add: o_def float_at_update)
  from dp obtain pascal where p: "to_pascal gauge (pressure_units config) = Inr pascal"
    and depth: "depth = map (\<lambda>p. fdiv p (Fin (fluid_density config * GRAVITY))) pascal"
    by (auto simp: gauge_to_depth_def split: sum.splits)
  from p obtain k where k: "\<forall>series. to_pascal series (pressure_units config) = Inr (map (\<lambda>v. fmul v (Fin k)) series)"
    by (auto simp: to_pascal_def Let_def split: if_splits)
  with p have pascal: "pascal = map (\<lambda>v. fmul v (Fin k)) gauge" by simp
  define D where "D = (\<lambda>r. fdiv (fmul (G r) (Fin k)) (Fin (fluid_density config * GRAVITY)))"
  have depth': "map F depth = map (\<lambda>r. F (D r)) (rows merged)"
    unfolding depth pascal gauge D_def by (simp add: o_def)
  have rows_m1: "rows m1 = map (\<lambda>r. AList.update GAUGE_PRESSURE (F (G r)) r) (rows merged)"
    by (simp add: m1_eq)
  have m2_eq: "m2 = \<lparr> columns = AList.update WATER_DEPTH Float64 (columns m1),
      rows = map (\<lambda>r. AList.update WATER_DEPTH (F (D r)) (AList.update GAUGE_PRESSURE (F (G r)) r))
               (rows merged) \<rparr>"
    using m2 unfolding depth' by (simp add: setitem_map_base [OF rows_m1])
  have d_eq: "d = map D (rows merged)"
    unfolding float_column_Inr(1) [OF d] m2_eq by (simp add: o_def float_at_update)
  have "rows out = map (\<lambda>r. AList.update WSE (F (fadd (Fin (reference_datum config)) (D r)))
      (AList.update WATER_DEPTH (F (D r)) (AList.update GAUGE_PRESSURE (F (G r)) r))) (rows merged)"
  proof -
    have r2: "rows m2 = map (\<lambda>r. AList.update WATER_DEPTH (F (D r)) (AList.update GAUGE_PRESSURE (F (G r)) r)) (rows merged)"
      by (simp add: m2_eq)
    have "map (\<lambda>v. F (fadd (Fin (reference_datum config)) v)) d =
        map (\<lambda>r. F (fadd (Fin (reference_datum config)) (D r))) (rows merged)"
      by (simp add: d_eq o_def)
    with out show ?thesis by (auto simp add: setitem_map_base [OF r2])
  qed
  then have "rows out = map (computed_row config k) (rows merged)"
    by (simp add: computed_row_def G_def D_def Let_def)
  with k float_column_Inr(2) [OF wp] float_column_Inr(2) [OF bp] show ?thesis by blast
qed

subsection \<open>The nearest match\<close>



















lemma cell_of_computed_row:
  "cell_of (computed_row config k r) name =
     (if name = WSE then F (fadd (Fin (reference_datum config))
          (fdiv (fmul (fsub (float_at r WATER_PRESSURE) (float_at r BARO_PRESSURE)) (Fin k))
             (Fin (fluid_density config * GRAVITY))))
      else if name = WATER_DEPTH then
        F (fdiv (fmul (fsub (float_at r WATER_PRESSURE) (float_at r BARO_PRESSURE)) (Fin k))
             (Fin (fluid_density config * GRAVITY)))
      else if name = GAUGE_PRESSURE then
        F (fsub (float_at r WATER_PRESSURE) (float_at r BARO_PRESSURE))
      else cell_of r name)"
  by (simp add: computed_row_def Let_def cell_of_update)

lemma align_Inr:
  assumes "align pd water barometric config wpc bpc wtc btc tsw tsb = Inr m3"
  shows "\<exists>df_water df_baro right tolerance merged m1 m2.
      prepare pd config water tsw = Inr df_water
    \<and> prepare pd config barometric tsb = Inr df_baro
    \<and> select_columns df_baro ([tsb, bpc] @ given btc) = Inr right
    \<and> to_timedelta pd (merge_tolerance config) = Some tolerance
    \<and> merge_asof df_water right tsw tsb tolerance = Inr merged
    \<and> rename (dict [(tsw, TIMESTAMP), (wpc, WATER_PRESSURE), (bpc, BARO_PRESSURE)]) merged = Inr m1
    \<and> rename_given wtc WATER_TEMPERATURE m1 = Inr m2
    \<and> rename_given btc AIR_TEMPERATURE m2 = Inr m3"
  using assms unfolding align_def and_then_eq_Inr
  by (auto simp: timedelta_def split: option.splits)

lemma compute_wse_Inr:
  assumes "compute_wse pd water barometric config wpc bpc wtc btc tsw tsb = Inr out"
  shows "\<exists>merged kept.
      align pd water barometric config wpc bpc wtc btc tsw tsb = Inr merged
    \<and> dropna merged [TIMESTAMP, WATER_PRESSURE, BARO_PRESSURE] = Inr kept
    \<and> add_computed config kept = Inr out"
  using assms unfolding compute_wse_def and_then_eq_Inr by blast

text \<open>
  C1. In every row of the result of \<open>compute_wse\<close> the gauge pressure is the water
  pressure minus the barometric pressure, in the unit of the input; the depth is
  \<open>to_pascal\<close> of the gauge pressure divided by density times 9.80665; the elevation is
  the reference datum plus the depth. On finite pressures these are the real difference,
  quotient and sum when the density is not zero, and with a positive density a gauge pressure
  below zero gives a depth below zero, in a row of the result like any other.
\<close>

theorem compute_wse_columns:
  assumes "compute_wse pd water barometric config water_pressure_col baro_pressure_col
             water_temp_col baro_temp_col timestamp_col_water timestamp_col_baro = Inr out"
  shows "\<forall>r \<in> set (rows out). \<exists>wp bp p.
       cell_of r WATER_PRESSURE = F wp \<and> cell_of r BARO_PRESSURE = F bp
     \<and> cell_of r GAUGE_PRESSURE = F (fsub wp bp)
     \<and> to_pascal [fsub wp bp] (pressure_units config) = Inr [p]
     \<and> cell_of r WATER_DEPTH = F (fdiv p (Fin (fluid_density config * GRAVITY)))
     \<and> cell_of r WSE =
         F (fadd (Fin (reference_datum config)) (fdiv p (Fin (fluid_density config * GRAVITY))))
     \<and> (\<forall>a b. wp = Fin a \<and> bp = Fin b \<longrightarrow>
           cell_of r GAUGE_PRESSURE = F (Fin (a - b))
         \<and> (fluid_density config \<noteq> 0 \<longrightarrow>
              (\<exists>k d. p = Fin ((a - b) * k) \<and> 0 < k \<and> d = (a - b) * k / (fluid_density config * GRAVITY)
                 \<and> cell_of r WATER_DEPTH = F (Fin d)
                 \<and> cell_of r WSE = F (Fin (reference_datum config + d))
                 \<and> (0 < fluid_density config \<and> a < b \<longrightarrow> d < 0))))"
proof
  fix r assume r: "r \<in> set (rows out)"
  from compute_wse_Inr [OF assms] obtain kept where "add_computed config kept = Inr out" by blast
  from add_computed_Inr [OF this] obtain k where
    k: "\<And>series. to_pascal series (pressure_units config) = Inr (map (\<lambda>v. fmul v (Fin k)) series)"
    and rows: "rows out = map (computed_row config k) (rows kept)"
    and fl: "\<And>r. r \<in> set (rows kept) \<Longrightarrow> cell_of r WATER_PRESSURE = F (float_at r WATER_PRESSURE)
            \<and> cell_of r BARO_PRESSURE = F (float_at r BARO_PRESSURE)"
    by blast
  from r rows obtain r0 where r0: "r0 \<in> set (rows kept)" and r_eq: "r = computed_row config k r0"
    by auto
  define wp where "wp = float_at r0 WATER_PRESSURE"
  define bp where "bp = float_at r0 BARO_PRESSURE"
  define p where "p = fmul (fsub wp bp) (Fin k)"
  from k [of "[Fin 1]"] have kpos: "0 < k"
    by (auto simp: to_pascal_def Let_def KPA_TO_PASCAL_def PSI_TO_PASCAL_def split: if_splits)
  have g0: "0 < GRAVITY" by (simp add: GRAVITY_def)
  have 1: "cell_of r WATER_PRESSURE = F wp" "cell_of r BARO_PRESSURE = F bp"
    using fl [OF r0] by (simp_all add: r_eq cell_of_computed_row wp_def bp_def)
  have 2: "cell_of r GAUGE_PRESSURE = F (fsub wp bp)"
    by (simp add: r_eq cell_of_computed_row wp_def bp_def)
  have 3: "to_pascal [fsub wp bp] (pressure_units config) = Inr [p]"
    by (simp add: k p_def)
  have 4: "cell_of r WATER_DEPTH = F (fdiv p (Fin (fluid_density config * GRAVITY)))"
    by (simp add: r_eq cell_of_computed_row wp_def bp_def p_def)
  have 5: "cell_of r WSE =
         F (fadd (Fin (reference_datum config)) (fdiv p (Fin (fluid_density config * GRAVITY))))"
    by (simp add: r_eq cell_of_computed_row wp_def bp_def p_def)
  have 6: "cell_of r GAUGE_PRESSURE = F (Fin (a - b))
         \<and> (fluid_density config \<noteq> 0 \<longrightarrow>
              (\<exists>k d. p = Fin ((a - b) * k) \<and> 0 < k \<and> d = (a - b) * k / (fluid_density config * GRAVITY)
                 \<and> cell_of r WATER_DEPTH = F (Fin d)
                 \<and> cell_of r WSE = F (Fin (reference_datum config + d))
                 \<and> (0 < fluid_density config \<and> a < b \<longrightarrow> d < 0)))"
    if ab: "wp = Fin a \<and> bp = Fin b" for a b
  proof -
    have p_eq: "p = Fin ((a - b) * k)" using ab by (simp add: p_def fsub_def)
    have neg: "(a - b) * k / (fluid_density config * GRAVITY) < 0"
      if "0 < fluid_density config \<and> a < b"
    proof -
      from that kpos have "(a - b) * k < 0" by (simp add: mult_neg_pos)
      moreover from that g0 have "0 < fluid_density config * GRAVITY" by simp
      ultimately show ?thesis by (simp add: divide_neg_pos)
    qed
    show ?thesis
      using 2 4 5 ab kpos g0 neg unfolding p_eq by (auto simp: fsub_def)
  qed
  from 1 2 3 4 5 6 show "\<exists>wp bp p.
       cell_of r WATER_PRESSURE = F wp \<and> cell_of r BARO_PRESSURE = F bp
     \<and> cell_of r GAUGE_PRESSURE = F (fsub wp bp)
     \<and> to_pascal [fsub wp bp] (pressure_units config) = Inr [p]
     \<and> cell_of r WATER_DEPTH = F (fdiv p (Fin (fluid_density config * GRAVITY)))
     \<and> cell_of r WSE =
         F (fadd (Fin (reference_datum config)) (fdiv p (Fin (fluid_density config * GRAVITY))))
     \<and> (\<forall>a b. wp = Fin a \<and> bp = Fin b \<longrightarrow>
           cell_of r GAUGE_PRESSURE = F (Fin (a - b))
         \<and> (fluid_density config \<noteq> 0 \<longrightarrow>
              (\<exists>k d. p = Fin ((a - b) * k) \<and> 0 < k \<and> d = (a - b) * k / (fluid_density config * GRAVITY)
                 \<and> cell_of r WATER_DEPTH = F (Fin d)
                 \<and> cell_of r WSE = F (Fin (reference_datum config + d))
                 \<and> (0 < fluid_density config \<and> a < b \<longrightarrow> d < 0))))"
    by blast
qed

theorem compute_wse_columns_witness:
  "compute_wse simple_pandas water_ex baro_ex config_ex ''Abs Pres W'' ''Abs Pres B''
     (Some ''Temp W'') None ''Date Time'' ''Date Time'' = Inr wse_ex
   \<and> (\<exists>wp bp p. cell_of (rows wse_ex ! 2) WATER_PRESSURE = F wp
        \<and> cell_of (rows wse_ex ! 2) BARO_PRESSURE = F bp
        \<and> cell_of (rows wse_ex ! 2) GAUGE_PRESSURE = F (fsub wp bp)
        \<and> to_pascal [fsub wp bp] (pressure_units config_ex) = Inr [p]
        \<and> cell_of (rows wse_ex ! 2) WATER_DEPTH = F (fdiv p (Fin (fluid_density config_ex * GRAVITY))))
   \<and> cell_of (rows wse_ex ! 2) GAUGE_PRESSURE = F (Fin (- 0.5))
   \<and> cell_of (rows wse_ex ! 2) WATER_DEPTH = F (Fin (- 500 / 9806.65))
   \<and> cell_of (rows wse_ex ! 0) WATER_DEPTH = F (Fin (300 / 9806.65))
   \<and> cell_of (rows wse_ex ! 0) WSE = F (Fin (100 + 300 / 9806.65))"
proof -
  have "rows wse_ex ! 2 \<in> set (rows wse_ex)" by (simp add: wse_ex_def)
  with compute_wse_columns [OF compute_wse_ex]
  have "\<exists>wp bp p. cell_of (rows wse_ex ! 2) WATER_PRESSURE = F wp
        \<and> cell_of (rows wse_ex ! 2) BARO_PRESSURE = F bp
        \<and> cell_of (rows wse_ex ! 2) GAUGE_PRESSURE = F (fsub wp bp)
        \<and> to_pascal [fsub wp bp] (pressure_units config_ex) = Inr [p]
        \<and> cell_of (rows wse_ex ! 2) WATER_DEPTH = F (fdiv p (Fin (fluid_density config_ex * GRAVITY)))"
    by blast
  moreover have "cell_of (rows wse_ex ! 2) GAUGE_PRESSURE = F (Fin (- 0.5))"
    "cell_of (rows wse_ex ! 2) WATER_DEPTH = F (Fin (- 500 / 9806.65))"
    "cell_of (rows wse_ex ! 0) WATER_DEPTH = F (Fin (300 / 9806.65))"
    "cell_of (rows wse_ex ! 0) WSE = F (Fin (100 + 300 / 9806.65))"
    by (simp_all add: wse_ex_def cell_of_def)
  ultimately show ?thesis using compute_wse_ex by blast
qed

section \<open>Properties of summarise_timeseries\<close>

text \<open>A table of four rows over three days, one of them without a timestamp.\<close>

lemma summarise_day_ex:
  "summarise_timeseries simple_pandas day_ex =
    Inr (\<lparr>bins = [3 * DAY, 4 * DAY, 5 * DAY],
         means = \<lparr>columns = [(WSE, Float64)],
              rows = [[(WSE, F (Fin 101))], [(WSE, F NaN)], [(WSE, F (Fin 104))]]\<rparr>\<rparr>,
      \<lparr>bins = [3 * DAY, 10 * DAY],
         means = \<lparr>columns = [(WSE, Float64)],
              rows = [[(WSE, F (Fin 101))], [(WSE, F (Fin 104))]]\<rparr>\<rparr>)"
  by (simp add: summarise_timeseries_def getitem_def contains_def labels_def day_ex_def cell_of_def
     resample_mean_def numeric_columns_def day_label_def week_label_def DAY_def Let_def
     upto.simps mean_def float_at_def)




end
